theory Spec2Isabelle
  imports Complex_Main "HOL-Library.Monad_Syntax"
begin

section \<open>The mission planner of SpaceRockets.c\<close>

text \<open>
  A shallow embedding of the feasibility engine of \<^verbatim>\<open>SpaceRockets.c\<close>: the rocket
  equation (\<^verbatim>\<open>calc_capability\<close>), the tanker plan (\<^verbatim>\<open>compute_tanker_plan\<close>), the date
  parser (\<^verbatim>\<open>parse_date\<close>) and the decision logic and launch-window loop of
  \<^verbatim>\<open>run_mission\<close>.

  Number representation.  A C \<^verbatim>\<open>double\<close> is modelled as a \<^typ>\<open>real\<close>: the arithmetic is
  the exact one, without rounding, infinities or NaN.  Where the source divides, the
  model follows it only behind the same guard that excludes a zero divisor, and
  otherwise reports the result as undefined.  A C \<^verbatim>\<open>int\<close> is a 32-bit and a
  \<^verbatim>\<open>time_t\<close> a 64-bit signed integer, both modelled as \<^typ>\<open>int\<close> with the range
  written out: a conversion or an addition that leaves the range is undefined
  behaviour in C, and is the value \<^term>\<open>None\<close> here.
\<close>

subsection \<open>Constants and data structures\<close>

definition G0 :: real where
  "G0 = 9.80665"

definition EARTH_ASCENT_COST :: real where
  "EARTH_ASCENT_COST = 9.30"

record Rocket =
  rocket_name :: string
  wet_mass_kg :: real
  dry_mass_kg :: real
  isp_avg :: real
  payload_leo_kg :: real
  staging_factor :: real
  refuel_dv_per_tanker :: real

record Body =
  body_name :: string
  dv_transfer :: real
  dv_capture :: real
  synodic_days :: real
  epoch_date :: string
  typical_transit_days :: real

text \<open>
  The field \<open>strategy\<close> holds the source's integer code: 0 direct, 1 Oberth,
  2 gravity assist, 3 refuel, 4 kick stage, -1 impossible.
\<close>

record Mission =
  rocket :: Rocket
  body :: Body
  start_date :: string
  payload_kg :: real
  strategy :: int
  mission_notes :: string

text \<open>The catalog: the arrays \<^verbatim>\<open>rockets[]\<close> and \<^verbatim>\<open>bodies[]\<close>.\<close>

definition starship :: Rocket where
  "starship = \<lparr>rocket_name = ''SpaceX's Starship'', wet_mass_kg = 5000000,
     dry_mass_kg = 200000, isp_avg = 350, payload_leo_kg = 150000,
     staging_factor = 1.4, refuel_dv_per_tanker = 5.5\<rparr>"

definition sls :: Rocket where
  "sls = \<lparr>rocket_name = ''NASA's SLS'', wet_mass_kg = 2600000,
     dry_mass_kg = 110000, isp_avg = 400, payload_leo_kg = 95000,
     staging_factor = 1.5, refuel_dv_per_tanker = 0\<rparr>"

definition new_glenn :: Rocket where
  "new_glenn = \<lparr>rocket_name = ''Blue Origin's New Glenn'', wet_mass_kg = 1700000,
     dry_mass_kg = 100000, isp_avg = 340, payload_leo_kg = 45000,
     staging_factor = 1.4, refuel_dv_per_tanker = 0\<rparr>"

definition pslv :: Rocket where
  "pslv = \<lparr>rocket_name = ''ISRO's Mangalyaan 1 (PSLV)'', wet_mass_kg = 320000,
     dry_mass_kg = 42000, isp_avg = 275, payload_leo_kg = 1750,
     staging_factor = 1.2, refuel_dv_per_tanker = 0\<rparr>"

definition rockets :: "Rocket list" where
  "rockets = [starship, sls, new_glenn, pslv]"

definition moon :: Body where
  "moon = \<lparr>body_name = ''Moon'', dv_transfer = 3.12, dv_capture = 2.80,
     synodic_days = 29.5, epoch_date = ''2025-01-13'', typical_transit_days = 3\<rparr>"

definition mars :: Body where
  "mars = \<lparr>body_name = ''Mars'', dv_transfer = 3.80, dv_capture = 2.10,
     synodic_days = 780, epoch_date = ''2025-01-16'', typical_transit_days = 210\<rparr>"

definition titan :: Body where
  "titan = \<lparr>body_name = ''Titan (Saturn)'', dv_transfer = 7.30, dv_capture = 3.00,
     synodic_days = 378.1, epoch_date = ''2025-09-21'', typical_transit_days = 1000\<rparr>"

definition bodies :: "Body list" where
  "bodies = [moon, mars, titan]"

subsection \<open>Conversions between double and the integer types\<close>

text \<open>
  A cast from \<^verbatim>\<open>double\<close> to an integer type discards the fractional part; when the
  integral part is not representable the behaviour is undefined.
\<close>

definition trunc :: "real \<Rightarrow> int" where
  "trunc x = (if 0 \<le> x then \<lfloor>x\<rfloor> else \<lceil>x\<rceil>)"

definition INT_MIN :: int where
  "INT_MIN = - 2147483648"

definition INT_MAX :: int where
  "INT_MAX = 2147483647"

definition TIME_MIN :: int where
  "TIME_MIN = - 9223372036854775808"

definition TIME_MAX :: int where
  "TIME_MAX = 9223372036854775807"

definition int_range :: "int \<Rightarrow> int option" where
  "int_range k = (if INT_MIN \<le> k \<and> k \<le> INT_MAX then Some k else None)"

definition time_range :: "int \<Rightarrow> int option" where
  "time_range k = (if TIME_MIN \<le> k \<and> k \<le> TIME_MAX then Some k else None)"

definition int_of_double :: "real \<Rightarrow> int option" where
  "int_of_double x = int_range (trunc x)"

definition time_of_double :: "real \<Rightarrow> int option" where
  "time_of_double x = time_range (trunc x)"

subsection \<open>Substring search\<close>

text \<open>
  \<^verbatim>\<open>strstr(haystack, needle)\<close> is only ever tested against \<^verbatim>\<open>NULL\<close>, so the model
  returns whether the needle occurs.
\<close>

fun starts_with :: "string \<Rightarrow> string \<Rightarrow> bool" where
  "starts_with s [] = True"
| "starts_with [] (c # cs) = False"
| "starts_with (x # xs) (c # cs) = (x = c \<and> starts_with xs cs)"

fun strstr :: "string \<Rightarrow> string \<Rightarrow> bool" where
  "strstr [] needle = (needle = [])"
| "strstr (x # xs) needle = (starts_with (x # xs) needle \<or> strstr xs needle)"

subsection \<open>The rocket equation\<close>

definition calc_capability :: "Rocket \<Rightarrow> real \<Rightarrow> real" where
  "calc_capability r payload =
     (if payload > payload_leo_kg r then 0
      else
        let m0 = wet_mass_kg r + payload;
            mf = dry_mass_kg r + payload
        in if mf \<le> 0 \<or> m0 \<le> mf then 0
           else
             let dv = (isp_avg r * G0 * ln (m0 / mf)) / 1000
             in dv * staging_factor r)"

subsection \<open>The tanker plan\<close>

text \<open>
  The function writes the count through \<^verbatim>\<open>tankers_needed\<close> and returns the same
  number; the model returns it once.
\<close>

definition compute_tanker_plan :: "Mission \<Rightarrow> real \<Rightarrow> int option" where
  "compute_tanker_plan m shortage =
     (let per_tanker = refuel_dv_per_tanker (rocket m)
      in if per_tanker \<le> 0 \<or> shortage \<le> 0 then Some 0
         else int_of_double (real_of_int \<lceil>shortage / per_tanker\<rceil>))"

subsection \<open>Printing an integer with \<^verbatim>\<open>%d\<close>\<close>

definition digit_char :: "nat \<Rightarrow> char" where
  "digit_char n = ''0123456789'' ! n"

function show_nat :: "nat \<Rightarrow> string" where
  "show_nat n = (if n < 10 then [digit_char n] else show_nat (n div 10) @ [digit_char (n mod 10)])"
  by pat_completeness auto
termination
  by (relation "measure (\<lambda>n. n)") auto

declare show_nat.simps [simp del]

definition show_int :: "int \<Rightarrow> string" where
  "show_int k = (if k < 0 then CHR ''-'' # show_nat (nat (- k)) else show_nat (nat k))"

subsection \<open>The decision logic of \<^verbatim>\<open>run_mission\<close>\<close>

text \<open>
  Lines 286 to 325: from the base capability and the total requirement, the strategy
  code, the bonus delta-v and the note.  The three are the values of
  \<^verbatim>\<open>m->strategy\<close>, \<^verbatim>\<open>bonus_dv\<close> and \<^verbatim>\<open>m->notes\<close> after the \<^verbatim>\<open>if\<close> statement.
\<close>

definition select_strategy :: "Mission \<Rightarrow> real \<Rightarrow> real \<Rightarrow> int \<times> real \<times> string" where
  "select_strategy m cap total_req =
     (let margin = cap - total_req
      in if margin < 0 then
           if strstr (body_name (body m)) ''Titan'' then
             (2, 4.5, ''Alternate route: VEEGA gravity assist (~7 year flight)'')
           else if strstr (rocket_name (rocket m)) ''Starship'' then
             (3, 0, ''Assumption: LEO refueling by tanker missions'')
           else if margin > - 1.5 then
             (4, 2.0, ''Assumption: Added 'Star 48' solid kick stage'')
           else
             (- 1, 0, ''No feasible profile found with current assumptions'')
         else if strstr (rocket_name (rocket m)) ''PSLV'' \<and> strstr (body_name (body m)) ''Mars''
                 \<and> payload_kg m \<le> 1500 then
           (1, 6.5, ''Oberth/Kick-perigee method for low-mass Mars mission'')
         else
           (0, 0, ''None''))"

text \<open>
  Lines 327 to 350: the tanker count, the final capability and the note.  A negative
  count from the tanker plan is replaced by 0.
\<close>

definition final_capability ::
  "Mission \<Rightarrow> int \<Rightarrow> real \<Rightarrow> string \<Rightarrow> real \<Rightarrow> real \<Rightarrow> (int \<times> real \<times> string) option" where
  "final_capability m strat bonus_dv note cap total_req =
     (if strat = 3 then
        let shortage = total_req - cap
        in if shortage \<le> 0 then Some (0, cap, note)
           else
             (case compute_tanker_plan m shortage of
                None \<Rightarrow> None
              | Some needed \<Rightarrow>
                  (let tankers_needed = (if needed < 0 then 0 else needed);
                       final_cap = cap + (real_of_int tankers_needed * refuel_dv_per_tanker (rocket m))
                   in Some (tankers_needed, final_cap,
                        ''LEO refueling: estimated '' @ show_int tankers_needed @ '' tanker(s) required'')))
      else Some (0, cap + bonus_dv, note))"

text \<open>
  What the first half of \<^verbatim>\<open>run_mission\<close> (lines 277 to 353) computes and then prints:
  the mission with its strategy and note set, and the numbers of the budget.
\<close>

record Verdict =
  mission :: Mission
  cap :: real
  total_req :: real
  bonus_dv :: real
  tankers_needed :: int
  final_cap :: real
  final_margin :: real
  success :: bool

definition run_mission_verdict :: "Mission \<Rightarrow> Verdict option" where
  "run_mission_verdict m =
     (let p1 = EARTH_ASCENT_COST;
          p2 = dv_transfer (body m);
          p3 = dv_capture (body m);
          total = p1 + p2 + p3;
          c = calc_capability (rocket m) (payload_kg m);
          (strat, bonus, note) = select_strategy m c total
      in (case final_capability m strat bonus note c total of
            None \<Rightarrow> None
          | Some (tankers, fcap, note') \<Rightarrow>
              (let fmargin = fcap - total;
                   ok = (fmargin \<ge> 0 \<and> strat \<noteq> - 1)
               in Some \<lparr>mission = m\<lparr>strategy := strat, mission_notes := note'\<rparr>,
                    cap = c, total_req = total, bonus_dv = bonus, tankers_needed = tankers,
                    final_cap = fcap, final_margin = fmargin, success = ok\<rparr>)))"

subsection \<open>Parsing a date\<close>

text \<open>
  The conversion \<^verbatim>\<open>%d\<close> of \<^verbatim>\<open>sscanf\<close>: white space is skipped, then an optional sign
  and a non-empty run of decimal digits are read.  The result is the number and the
  rest of the input, or \<^term>\<open>None\<close> when no number is there.
\<close>

definition isspace :: "char \<Rightarrow> bool" where
  "isspace c = (c = CHR '' '' \<or> (9 \<le> (of_char c :: nat) \<and> (of_char c :: nat) \<le> 13))"

definition isdigit :: "char \<Rightarrow> bool" where
  "isdigit c = (48 \<le> (of_char c :: nat) \<and> (of_char c :: nat) \<le> 57)"

definition digits_value :: "string \<Rightarrow> int" where
  "digits_value ds = foldl (\<lambda>a c. 10 * a + (int (of_char c) - 48)) 0 ds"

definition scan_digits :: "string \<Rightarrow> (int \<times> string) option" where
  "scan_digits s =
     (let ds = takeWhile isdigit s
      in if ds = [] then None else Some (digits_value ds, dropWhile isdigit s))"

definition scan_int :: "string \<Rightarrow> (int \<times> string) option" where
  "scan_int s =
     (case dropWhile isspace s of
        [] \<Rightarrow> None
      | c # cs \<Rightarrow>
          (if c = CHR ''-'' then
             (case scan_digits cs of None \<Rightarrow> None | Some (v, rest) \<Rightarrow> Some (- v, rest))
           else if c = CHR ''+'' then scan_digits cs
           else scan_digits (c # cs)))"

text \<open>
  \<^verbatim>\<open>sscanf(s, "%d-%d-%d", &y, &m, &d)\<close>.  The outer \<^term>\<open>None\<close> is undefined behaviour (a
  number that does not fit an \<^verbatim>\<open>int\<close>); \<^term>\<open>Some None\<close> is a return value other
  than 3; \<^term>\<open>Some (Some (y, m, d))\<close> is the return value 3 with the three numbers.
\<close>

definition sscanf_date :: "string \<Rightarrow> (int \<times> int \<times> int) option option" where
  "sscanf_date s =
     (case scan_int s of
        None \<Rightarrow> Some None
      | Some (y, r1) \<Rightarrow>
          (if int_range y = None then None
           else (case r1 of
             [] \<Rightarrow> Some None
           | c1 # r2 \<Rightarrow>
               (if c1 \<noteq> CHR ''-'' then Some None
                else (case scan_int r2 of
                  None \<Rightarrow> Some None
                | Some (mo, r3) \<Rightarrow>
                    (if int_range mo = None then None
                     else (case r3 of
                       [] \<Rightarrow> Some None
                     | c2 # r4 \<Rightarrow>
                         (if c2 \<noteq> CHR ''-'' then Some None
                          else (case scan_int r4 of
                            None \<Rightarrow> Some None
                          | Some (d, r5) \<Rightarrow>
                              (if int_range d = None then None
                               else Some (Some (y, mo, d))))))))))))"

record tm =
  tm_year :: int
  tm_mon :: int
  tm_mday :: int
  tm_hour :: int
  tm_min :: int
  tm_sec :: int
  tm_isdst :: int

text \<open>
  \<^verbatim>\<open>parse_date\<close> returns -1 on error.  The library function \<^verbatim>\<open>mktime\<close> depends on the
  time zone of the process and is a parameter \<open>mk\<close>.  The source's test for a null
  pointer has no counterpart: a \<^typ>\<open>string\<close> is never null.
\<close>

definition parse_date :: "(tm \<Rightarrow> int) \<Rightarrow> string \<Rightarrow> int option" where
  "parse_date mk s =
     (if length s < 8 then Some (- 1)
      else (case sscanf_date s of
        None \<Rightarrow> None
      | Some None \<Rightarrow> Some (- 1)
      | Some (Some (y, m, d)) \<Rightarrow>
          do {
            year \<leftarrow> int_range (y - 1900);
            mon \<leftarrow> int_range (m - 1);
            Some (mk \<lparr>tm_year = year, tm_mon = mon, tm_mday = d, tm_hour = 0, tm_min = 0,
                      tm_sec = 0, tm_isdst = - 1\<rparr>)
          }))"



subsection \<open>The launch windows of \<^verbatim>\<open>run_mission\<close>\<close>

text \<open>
  Lines 408 to 418: the body of the loop for the window \<open>i\<close>, giving the launch and
  the arrival time that are then formatted and printed.  The travel time \<^verbatim>\<open>days\<close> of
  lines 413 to 415 does not depend on \<open>i\<close> and is \<open>transit_days\<close>.
\<close>

definition transit_days :: "Mission \<Rightarrow> real" where
  "transit_days m =
     (if strategy m = 2 \<and> strstr (body_name (body m)) ''Titan'' then 2555
      else typical_transit_days (body m))"

definition window_at :: "Mission \<Rightarrow> int \<Rightarrow> int \<Rightarrow> real \<Rightarrow> int \<Rightarrow> (int \<times> int) option" where
  "window_at m epoch cycles cycle_sec i =
     do {
       k \<leftarrow> int_range (cycles + i);
       off \<leftarrow> time_of_double (real_of_int k * cycle_sec);
       launch \<leftarrow> time_range (epoch + off);
       let days = transit_days m;
       transit \<leftarrow> time_of_double (days * 86400);
       arrival \<leftarrow> time_range (launch + transit);
       Some (launch, arrival)
     }"

function window_loop :: "Mission \<Rightarrow> int \<Rightarrow> int \<Rightarrow> real \<Rightarrow> int \<Rightarrow> (int \<times> int) list option" where
  "window_loop m epoch cycles cycle_sec i =
     (if i < 5 then
        (case window_at m epoch cycles cycle_sec i of
           None \<Rightarrow> None
         | Some w \<Rightarrow>
             (case window_loop m epoch cycles cycle_sec (i + 1) of
                None \<Rightarrow> None
              | Some ws \<Rightarrow> Some (w # ws)))
      else Some [])"
  by pat_completeness auto
termination
  by (relation "measure (\<lambda>(m, epoch, cycles, cycle_sec, i). nat (5 - i))") auto

declare window_loop.simps [simp del]


text \<open>
  Lines 396 to 418.  \<^verbatim>\<open>difftime\<close> is the difference of the two times as a double.
  The value of \<^verbatim>\<open>parse_date\<close> is used as it is, also when it is the error value -1.
\<close>

definition run_mission_windows :: "(tm \<Rightarrow> int) \<Rightarrow> Mission \<Rightarrow> (int \<times> int) list option" where
  "run_mission_windows mk m =
     do {
       start \<leftarrow> parse_date mk (start_date m);
       epoch \<leftarrow> parse_date mk (epoch_date (body m));
       let cycle_sec = synodic_days (body m) * 86400;
       let diff = real_of_int start - real_of_int epoch;
       cycles \<leftarrow> (if diff \<le> 0 then Some 0
                  else if cycle_sec = 0 then None
                  else int_of_double (real_of_int \<lfloor>diff / cycle_sec\<rfloor>));
       window_loop m epoch cycles cycle_sec 0
     }"

text \<open>
  The whole of \<^verbatim>\<open>run_mission\<close>: the verdict, then the five windows for the mission
  with its strategy set.  Printing, the list of alternative rockets and the optional
  report file do not change any of these values.
\<close>

definition run_mission :: "(tm \<Rightarrow> int) \<Rightarrow> Mission \<Rightarrow> (Verdict \<times> (int \<times> int) list) option" where
  "run_mission mk m =
     (case run_mission_verdict m of
        None \<Rightarrow> None
      | Some v \<Rightarrow>
          (case run_mission_windows mk (mission v) of
             None \<Rightarrow> None
           | Some ws \<Rightarrow> Some (v, ws)))"

subsection \<open>Concrete rockets and missions\<close>



definition mission_a :: Mission where
  "mission_a = \<lparr>rocket = starship, body = mars, start_date = ''2025-01-01'',
     payload_kg = 100000, strategy = 0, mission_notes = []\<rparr>"

definition mission_c :: Mission where
  "mission_c = \<lparr>rocket = pslv, body = mars, start_date = ''2025-01-01'',
     payload_kg = 1000, strategy = 0, mission_notes = []\<rparr>"


definition mission_b :: Mission where
  "mission_b = \<lparr>rocket = starship, body = titan, start_date = ''2025-01-01'',
     payload_kg = 140000, strategy = 0, mission_notes = []\<rparr>"

definition pslv_heavy :: Rocket where
  "pslv_heavy = \<lparr>rocket_name = ''PSLV Heavy'', wet_mass_kg = 17000, dry_mass_kg = 1000,
     isp_avg = 700, payload_leo_kg = 1750, staging_factor = 1, refuel_dv_per_tanker = 0\<rparr>"

definition mission_o :: Mission where
  "mission_o = \<lparr>rocket = pslv_heavy, body = mars, start_date = ''2025-01-01'',
     payload_kg = 0, strategy = 0, mission_notes = []\<rparr>"





section \<open>Properties\<close>

subsection \<open>Bounds on the logarithm, and the casts\<close>

lemma exp_quarter_le: "exp (1/4 :: real) \<le> 4/3"
proof -
  have "1 + (- (1/4)) \<le> exp (- (1/4) :: real)" by (rule exp_ge_add_one_self)
  then have "3/4 \<le> exp (- (1/4) :: real)" by simp
  then have "3/4 \<le> 1 / exp (1/4 :: real)" by (simp add: exp_minus field_simps)
  moreover have "0 < exp (1/4 :: real)" by simp
  ultimately show ?thesis by (simp add: field_simps)
qed

lemma ln_17_lower: "9/4 \<le> ln (17 :: real)"
proof -
  have "exp (9/4 :: real) = exp (of_nat 9 * (1/4))" by simp
  also have "\<dots> = exp (1/4) ^ 9" by (rule exp_of_nat_mult)
  also have "\<dots> \<le> (4/3) ^ 9" by (rule power_mono[OF exp_quarter_le]) simp
  also have "\<dots> \<le> (17 :: real)" by (simp add: power_divide)
  finally have "exp (9/4 :: real) \<le> 17" .
  then show ?thesis using ln_ge_iff[of 17 "9/4"] by simp
qed

lemma exp_3_gt_17: "(17 :: real) < exp 3"
proof -
  have "1 + (3/4) + (3/4)\<^sup>2 / 2 \<le> exp (3/4 :: real)"
    by (rule exp_lower_Taylor_quadratic) simp
  then have a: "(65/32 :: real) \<le> exp (3/4)" by (simp add: power2_eq_square)
  have "(17 :: real) < (65/32) ^ 4" by (simp add: power_divide)
  also have "\<dots> \<le> exp (3/4) ^ 4" by (rule power_mono[OF a]) simp
  also have "\<dots> = exp (of_nat 4 * (3/4))" by (rule exp_of_nat_mult[symmetric])
  also have "\<dots> = exp 3" by simp
  finally show ?thesis .
qed

lemma ln_less_3: "0 < x \<Longrightarrow> x \<le> 17 \<Longrightarrow> ln (x :: real) < 3"
proof -
  assume x: "0 < x" "x \<le> 17"
  have "x < exp 3" using x(2) exp_3_gt_17 by linarith
  then have "ln x < ln (exp 3)" using x(1) by (simp del: ln_exp)
  then show ?thesis by simp
qed

lemma trunc_of_int: "trunc (real_of_int k) = k"
  by (simp add: trunc_def)

lemma cap_starship_100000: "calc_capability starship 100000 = 350 * G0 * ln 17 / 1000 * 1.4"
  by (simp add: calc_capability_def starship_def Let_def)

subsection \<open>Substring search\<close>

text \<open>The search succeeds exactly when the needle is a contiguous part of the haystack.\<close>

lemma starts_with_iff: "starts_with s n \<longleftrightarrow> (\<exists>t. s = n @ t)"
  by (induction s n rule: starts_with.induct) auto

lemma strstr_iff: "strstr h n \<longleftrightarrow> (\<exists>p t. h = p @ n @ t)"
proof (induction h)
  case Nil
  then show ?case by simp
next
  case (Cons x xs)
  have "(\<exists>p t. x # xs = p @ n @ t) \<longleftrightarrow> (\<exists>t. x # xs = n @ t) \<or> (\<exists>p t. xs = p @ n @ t)"
  proof
    assume "\<exists>p t. x # xs = p @ n @ t"
    then obtain p t where e: "x # xs = p @ n @ t" by blast
    show "(\<exists>t. x # xs = n @ t) \<or> (\<exists>p t. xs = p @ n @ t)"
    proof (cases p)
      case Nil
      then show ?thesis using e by auto
    next
      case (Cons y ys)
      then have "xs = ys @ n @ t" using e by simp
      then show ?thesis by blast
    qed
  next
    assume "(\<exists>t. x # xs = n @ t) \<or> (\<exists>p t. xs = p @ n @ t)"
    then show "\<exists>p t. x # xs = p @ n @ t"
    proof
      assume "\<exists>t. x # xs = n @ t"
      then obtain t where "x # xs = [] @ n @ t" by auto
      then show ?thesis by blast
    next
      assume "\<exists>p t. xs = p @ n @ t"
      then obtain p t where "x # xs = (x # p) @ n @ t" by auto
      then show ?thesis by blast
    qed
  qed
  then show ?case using Cons.IH by (simp add: starts_with_iff)
qed

subsection \<open>The rocket equation\<close>

text \<open>
  Claim C6.  A payload above the rocket's practical payload gives capability 0; a final
  mass \<open>dry + p\<close> that is not positive, or an initial mass \<open>wet + p\<close> not above the
  final mass, gives 0; otherwise the capability is
  \<open>isp * 9.80665 * ln ((wet + p) / (dry + p))\<close>, divided by 1000 to give km/s and
  multiplied by the staging factor.
\<close>

theorem calc_capability_cases:
  "(payload_leo_kg r < p \<longrightarrow> calc_capability r p = 0) \<and>
   (dry_mass_kg r + p \<le> 0 \<or> wet_mass_kg r + p \<le> dry_mass_kg r + p \<longrightarrow> calc_capability r p = 0) \<and>
   (p \<le> payload_leo_kg r \<and> 0 < dry_mass_kg r + p \<and> dry_mass_kg r + p < wet_mass_kg r + p \<longrightarrow>
      calc_capability r p =
        isp_avg r * 9.80665 * ln ((wet_mass_kg r + p) / (dry_mass_kg r + p)) / 1000 * staging_factor r)"
  by (simp add: calc_capability_def G0_def Let_def)

theorem calc_capability_cases_witness:
  "calc_capability starship 200000 = 0 \<and>
   calc_capability starship (- 200000) = 0 \<and>
   calc_capability starship 100000 = 350 * 9.80665 * ln (5100000 / 300000) / 1000 * 1.4"
  using calc_capability_cases [of starship 200000]
    calc_capability_cases [of starship "- 200000"]
    calc_capability_cases [of starship 100000]
  by (simp add: starship_def)






subsection \<open>The tanker plan\<close>


lemma tanker_ceiling_pos:
  "0 < refuel_dv_per_tanker (rocket m) \<Longrightarrow> 0 < shortage \<Longrightarrow>
   0 < \<lceil>shortage / refuel_dv_per_tanker (rocket m)\<rceil>"
  by simp

lemma tanker_plan_ceiling:
  assumes "0 < refuel_dv_per_tanker (rocket m)" and "0 < shortage"
  shows "compute_tanker_plan m shortage =
     (if \<lceil>shortage / refuel_dv_per_tanker (rocket m)\<rceil> \<le> INT_MAX
      then Some \<lceil>shortage / refuel_dv_per_tanker (rocket m)\<rceil> else None)"
proof -
  have "INT_MIN \<le> \<lceil>shortage / refuel_dv_per_tanker (rocket m)\<rceil>"
    using tanker_ceiling_pos [OF assms] by (simp add: INT_MIN_def)
  then show ?thesis
    using assms
    by (simp add: compute_tanker_plan_def int_of_double_def trunc_of_int int_range_def Let_def
        del: ceiling_le_numeral)
qed



subsection \<open>The verdict\<close>

text \<open>The final capability in each case of the strategy.\<close>

lemma final_capability_refuel:
  assumes "c < t" and "0 < refuel_dv_per_tanker (rocket m)"
  shows "final_capability m 3 bonus note c t =
     (if \<lceil>(t - c) / refuel_dv_per_tanker (rocket m)\<rceil> \<le> INT_MAX
      then Some (\<lceil>(t - c) / refuel_dv_per_tanker (rocket m)\<rceil>,
             c + real_of_int \<lceil>(t - c) / refuel_dv_per_tanker (rocket m)\<rceil>
                   * refuel_dv_per_tanker (rocket m),
             ''LEO refueling: estimated ''
               @ show_int \<lceil>(t - c) / refuel_dv_per_tanker (rocket m)\<rceil>
               @ '' tanker(s) required'')
      else None)"
proof -
  define k where "k = \<lceil>(t - c) / refuel_dv_per_tanker (rocket m)\<rceil>"
  have s: "0 < t - c" using assms(1) by simp
  have "0 < k" unfolding k_def using s assms(2) by simp
  moreover have "compute_tanker_plan m (t - c) = (if k \<le> INT_MAX then Some k else None)"
    unfolding k_def by (rule tanker_plan_ceiling [OF assms(2) s])
  ultimately show ?thesis
    using s unfolding k_def [symmetric] by (simp add: final_capability_def Let_def)
qed

lemma final_capability_no_tanker:
  assumes "c < t" and "refuel_dv_per_tanker (rocket m) \<le> 0"
  shows "final_capability m 3 bonus note c t =
     Some (0, c, ''LEO refueling: estimated 0 tanker(s) required'')"
proof -
  have "compute_tanker_plan m (t - c) = Some 0"
    using assms(2) by (simp add: compute_tanker_plan_def)
  moreover have "show_int 0 = ''0''"
    by (simp add: show_int_def show_nat.simps digit_char_def)
  ultimately show ?thesis
    using assms(1) by (simp add: final_capability_def Let_def)
qed

lemma final_capability_other:
  "strat \<noteq> 3 \<Longrightarrow> final_capability m strat bonus note c t = Some (0, c + bonus, note)"
  by (simp add: final_capability_def)


lemma show_int_1: "show_int 1 = ''1''"
  by (simp add: show_int_def show_nat.simps digit_char_def)


lemma strstr_catalog:
  "strstr (body_name titan) ''Titan''" "\<not> strstr (body_name mars) ''Titan''"
  "\<not> strstr (body_name moon) ''Titan''" "strstr (body_name mars) ''Mars''"
  "strstr (rocket_name starship) ''Starship''" "\<not> strstr (rocket_name pslv) ''Starship''"
  "strstr (rocket_name pslv) ''PSLV''" "\<not> strstr (rocket_name starship) ''PSLV''"
  by (simp_all add: titan_def mars_def moon_def starship_def pslv_def)

lemma cap_a_bounds: "9.7 < calc_capability starship 100000" "calc_capability starship 100000 < 15.2"
proof -
  have e: "calc_capability starship 100000 = 4.8052585 * ln 17"
    by (simp add: calc_capability_def starship_def Let_def G0_def)
  have "ln (17::real) < 3" by (rule ln_less_3) simp_all
  then show "calc_capability starship 100000 < 15.2" unfolding e by simp
  show "9.7 < calc_capability starship 100000" unfolding e using ln_17_lower by simp
qed

lemma total_mars: "EARTH_ASCENT_COST + dv_transfer mars + dv_capture mars = 15.2"
  by (simp add: EARTH_ASCENT_COST_def mars_def)

lemma verdict_eq:
  assumes "EARTH_ASCENT_COST + dv_transfer (body m) + dv_capture (body m) = t"
    and "calc_capability (rocket m) (payload_kg m) = c"
    and "select_strategy m c t = (s, b, n)"
    and "final_capability m s b n c t = Some (k, f, n')"
  shows "run_mission_verdict m =
     Some \<lparr>mission = m\<lparr>strategy := s, mission_notes := n'\<rparr>, cap = c, total_req = t,
           bonus_dv = b, tankers_needed = k, final_cap = f, final_margin = f - t,
           success = (0 \<le> f - t \<and> s \<noteq> - 1)\<rparr>"
  using assms by (simp add: run_mission_verdict_def Let_def)

lemma verdict_a:
  "run_mission_verdict mission_a =
     Some \<lparr>mission = mission_a\<lparr>strategy := 3,
              mission_notes := ''LEO refueling: estimated 1 tanker(s) required''\<rparr>,
           cap = calc_capability starship 100000, total_req = 15.2, bonus_dv = 0,
           tankers_needed = 1, final_cap = calc_capability starship 100000 + 5.5,
           final_margin = calc_capability starship 100000 + 5.5 - 15.2, success = True\<rparr>"
proof -
  let ?c = "calc_capability starship 100000"
  have t: "EARTH_ASCENT_COST + dv_transfer (body mission_a) + dv_capture (body mission_a) = 15.2"
    using total_mars by (simp add: mission_a_def)
  have c: "calc_capability (rocket mission_a) (payload_kg mission_a) = ?c"
    by (simp add: mission_a_def)
  have sel: "select_strategy mission_a ?c 15.2 =
      (3, 0, ''Assumption: LEO refueling by tanker missions'')"
    using cap_a_bounds(2) strstr_catalog by (simp add: select_strategy_def mission_a_def)
  have r: "refuel_dv_per_tanker (rocket mission_a) = 5.5"
    by (simp add: mission_a_def starship_def)
  have k: "\<lceil>(15.2 - ?c) / 5.5\<rceil> = 1"
    using cap_a_bounds by (simp add: ceiling_eq_iff)
  have fin: "final_capability mission_a 3 0 ''Assumption: LEO refueling by tanker missions'' ?c 15.2
      = Some (1, ?c + 5.5, ''LEO refueling: estimated 1 tanker(s) required'')"
    using final_capability_refuel [of ?c "15.2" mission_a 0 "''Assumption: LEO refueling by tanker missions''"]
      cap_a_bounds(2)
    unfolding r k by (simp add: INT_MAX_def show_int_1)
  have "0 \<le> ?c + 5.5 - 15.2" using cap_a_bounds(1) by simp
  then show ?thesis
    using verdict_eq [OF t c sel fin] by simp
qed


text \<open>
  Claim C1, as amended.  For the catalog Starship against the catalog Mars with a
  payload of 100,000 kg, the base capability \<open>350 * 9.80665 * ln 17 / 1000 * 1.4\<close>
  (about 13.6 km/s) is below the required 9.30 + 3.80 + 2.10 = 15.2 km/s.  The strategy
  is the refuel strategy (code 3) with one tanker, the final capability is the base
  capability plus 5.5 km/s, and the success flag is true.
\<close>

theorem starship_mars_verdict:
  "calc_capability starship 100000 = 350 * 9.80665 * ln 17 / 1000 * 1.4 \<and>
   calc_capability starship 100000 < 9.30 + 3.80 + 2.10 \<and>
   run_mission_verdict mission_a =
     Some \<lparr>mission = mission_a\<lparr>strategy := 3,
              mission_notes := ''LEO refueling: estimated 1 tanker(s) required''\<rparr>,
           cap = calc_capability starship 100000, total_req = 15.2, bonus_dv = 0,
           tankers_needed = 1, final_cap = calc_capability starship 100000 + 5.5,
           final_margin = calc_capability starship 100000 + 5.5 - 15.2, success = True\<rparr>"
  using cap_a_bounds(2) verdict_a cap_starship_100000 by (simp add: G0_def)

text \<open>
  Claim C1 as stated has the base capability above the requirement and the direct
  strategy (code 0).  Neither holds.
\<close>

theorem starship_mars_not_direct_counterexample:
  "run_mission_verdict mission_a \<noteq> None \<and>
   \<not> total_req (the (run_mission_verdict mission_a)) < cap (the (run_mission_verdict mission_a)) \<and>
   strategy (mission (the (run_mission_verdict mission_a))) \<noteq> 0"
  using cap_a_bounds(2) by (simp add: verdict_a)

text \<open>The catalog PSLV rocket against Mars with 1,000 kg.\<close>

lemma cap_c_bound: "calc_capability pslv 1000 < 13.7"
proof -
  have e: "calc_capability pslv 1000 = 3.2361945 * ln (321 / 43)"
    by (simp add: calc_capability_def pslv_def Let_def G0_def)
  have "ln (321 / 43 :: real) < 3" by (rule ln_less_3) simp_all
  then show ?thesis unfolding e by simp
qed

lemma verdict_c:
  "run_mission_verdict mission_c =
     Some \<lparr>mission = mission_c\<lparr>strategy := - 1,
              mission_notes := ''No feasible profile found with current assumptions''\<rparr>,
           cap = calc_capability pslv 1000, total_req = 15.2, bonus_dv = 0,
           tankers_needed = 0, final_cap = calc_capability pslv 1000,
           final_margin = calc_capability pslv 1000 - 15.2, success = False\<rparr>"
proof -
  let ?c = "calc_capability pslv 1000"
  have t: "EARTH_ASCENT_COST + dv_transfer (body mission_c) + dv_capture (body mission_c) = 15.2"
    using total_mars by (simp add: mission_c_def)
  have c: "calc_capability (rocket mission_c) (payload_kg mission_c) = ?c"
    by (simp add: mission_c_def)
  have sel: "select_strategy mission_c ?c 15.2 =
      (- 1, 0, ''No feasible profile found with current assumptions'')"
    using cap_c_bound strstr_catalog by (simp add: select_strategy_def mission_c_def)
  have fin: "final_capability mission_c (- 1) 0 ''No feasible profile found with current assumptions'' ?c 15.2
      = Some (0, ?c + 0, ''No feasible profile found with current assumptions'')"
    by (rule final_capability_other) simp
  show ?thesis
    using verdict_eq [OF t c sel fin] by simp
qed


lemma verdict_SomeD:
  assumes "run_mission_verdict m = Some v"
  shows "total_req v = EARTH_ASCENT_COST + dv_transfer (body m) + dv_capture (body m)"
    and "cap v = calc_capability (rocket m) (payload_kg m)"
    and "\<exists>n. select_strategy m (cap v) (total_req v) = (strategy (mission v), bonus_dv v, n) \<and>
           final_capability m (strategy (mission v)) (bonus_dv v) n (cap v) (total_req v) =
             Some (tankers_needed v, final_cap v, mission_notes (mission v))"
    and "final_margin v = final_cap v - total_req v"
    and "success v = (0 \<le> final_margin v \<and> strategy (mission v) \<noteq> - 1)"
    and "rocket (mission v) = rocket m" and "body (mission v) = body m"
    and "payload_kg (mission v) = payload_kg m" and "start_date (mission v) = start_date m"
  using assms
  by (auto simp: run_mission_verdict_def Let_def split: prod.splits option.splits)

lemma select_strategy_cases:
  "select_strategy m c t = (s, b, n) \<Longrightarrow>
   (if c - t < 0 then
      (if strstr (body_name (body m)) ''Titan'' then s = 2 \<and> b = 4.5
       else if strstr (rocket_name (rocket m)) ''Starship'' then s = 3 \<and> b = 0
       else if c - t > - 1.5 then s = 4 \<and> b = 2.0
       else s = - 1 \<and> b = 0)
    else if strstr (rocket_name (rocket m)) ''PSLV'' \<and> strstr (body_name (body m)) ''Mars''
            \<and> payload_kg m \<le> 1500 then s = 1 \<and> b = 6.5
    else s = 0 \<and> b = 0)"
  by (auto simp: select_strategy_def Let_def split: if_splits)


lemma verdict_None_iff:
  "run_mission_verdict m = None \<longleftrightarrow>
     calc_capability (rocket m) (payload_kg m)
       < EARTH_ASCENT_COST + dv_transfer (body m) + dv_capture (body m) \<and>
     \<not> strstr (body_name (body m)) ''Titan'' \<and>
     strstr (rocket_name (rocket m)) ''Starship'' \<and>
     0 < refuel_dv_per_tanker (rocket m) \<and>
     INT_MAX < \<lceil>(EARTH_ASCENT_COST + dv_transfer (body m) + dv_capture (body m)
                  - calc_capability (rocket m) (payload_kg m)) / refuel_dv_per_tanker (rocket m)\<rceil>"
proof -
  define t where "t = EARTH_ASCENT_COST + dv_transfer (body m) + dv_capture (body m)"
  define c where "c = calc_capability (rocket m) (payload_kg m)"
  define p where "p = refuel_dv_per_tanker (rocket m)"
  obtain s b n where sel: "select_strategy m c t = (s, b, n)"
    by (cases "select_strategy m c t") auto
  have run: "run_mission_verdict m = None \<longleftrightarrow> final_capability m s b n c t = None"
    using sel unfolding t_def c_def
    by (simp add: run_mission_verdict_def Let_def split: option.splits prod.splits)
  note cases = select_strategy_cases [OF sel]
  show ?thesis
  proof (cases "s = 3")
    case True
    then have br: "c < t" "\<not> strstr (body_name (body m)) ''Titan''"
        "strstr (rocket_name (rocket m)) ''Starship''"
      using cases by (auto split: if_splits)
    show ?thesis
    proof (cases "0 < p")
      case True
      have "final_capability m 3 b n c t = None \<longleftrightarrow> INT_MAX < \<lceil>(t - c) / p\<rceil>"
        using final_capability_refuel [OF br(1), of m b n] True
        unfolding p_def by (simp del: ceiling_le_numeral)
      then show ?thesis
        using run br True \<open>s = 3\<close> unfolding t_def c_def p_def by simp
    next
      case False
      then have "final_capability m 3 b n c t \<noteq> None"
        using final_capability_no_tanker [OF br(1), of m b n] unfolding p_def by simp
      then show ?thesis
        using run False \<open>s = 3\<close> unfolding p_def by simp
    qed
  next
    case False
    then have "final_capability m s b n c t \<noteq> None"
      by (simp add: final_capability_other)
    moreover have "\<not> (c < t \<and> \<not> strstr (body_name (body m)) ''Titan''
        \<and> strstr (rocket_name (rocket m)) ''Starship'')"
      using cases False by (auto split: if_splits)
    ultimately show ?thesis
      using run unfolding t_def c_def by auto
  qed
qed

text \<open>
  Claim C5.  The verdict is undefined only when the refuel strategy is chosen and the
  tanker count does not fit an \<^verbatim>\<open>int\<close>.  Every verdict has the capability of the
  rocket equation and the requirement 9.30 + transfer + capture; its final capability
  is the capability plus tankers times delta-v per tanker under the refuel strategy and
  the capability plus the bonus otherwise; its final margin is the final capability
  minus the requirement; and its success flag says that the final margin is not
  negative and the strategy is not the impossible one (code -1).
\<close>

theorem verdict_margin_and_success:
  "(run_mission_verdict m = None \<longleftrightarrow>
      calc_capability (rocket m) (payload_kg m)
        < EARTH_ASCENT_COST + dv_transfer (body m) + dv_capture (body m) \<and>
      \<not> strstr (body_name (body m)) ''Titan'' \<and>
      strstr (rocket_name (rocket m)) ''Starship'' \<and>
      0 < refuel_dv_per_tanker (rocket m) \<and>
      INT_MAX < \<lceil>(EARTH_ASCENT_COST + dv_transfer (body m) + dv_capture (body m)
                   - calc_capability (rocket m) (payload_kg m)) / refuel_dv_per_tanker (rocket m)\<rceil>) \<and>
   (\<forall>v. run_mission_verdict m = Some v \<longrightarrow>
      cap v = calc_capability (rocket m) (payload_kg m) \<and>
      total_req v = EARTH_ASCENT_COST + dv_transfer (body m) + dv_capture (body m) \<and>
      final_cap v =
        (if strategy (mission v) = 3
         then cap v + real_of_int (tankers_needed v) * refuel_dv_per_tanker (rocket m)
         else cap v + bonus_dv v) \<and>
      final_margin v = final_cap v - total_req v \<and>
      success v = (final_margin v \<ge> 0 \<and> strategy (mission v) \<noteq> - 1))"
proof -
  have "final_cap v =
        (if strategy (mission v) = 3
         then cap v + real_of_int (tankers_needed v) * refuel_dv_per_tanker (rocket m)
         else cap v + bonus_dv v)" if v: "run_mission_verdict m = Some v" for v
  proof -
    obtain n where
      fin: "final_capability m (strategy (mission v)) (bonus_dv v) n (cap v) (total_req v) =
             Some (tankers_needed v, final_cap v, mission_notes (mission v))"
      using verdict_SomeD(3) [OF v] by blast
    then show ?thesis
      by (auto simp: final_capability_def Let_def split: if_splits option.splits)
  qed
  then show ?thesis
    using verdict_None_iff [of m] verdict_SomeD(1,2,4,5) by blast
qed

theorem verdict_margin_and_success_witness:
  "run_mission_verdict mission_a \<noteq> None \<and>
   final_cap (the (run_mission_verdict mission_a))
     = cap (the (run_mission_verdict mission_a))
       + real_of_int (tankers_needed (the (run_mission_verdict mission_a))) * 5.5 \<and>
   final_margin (the (run_mission_verdict mission_a))
     = final_cap (the (run_mission_verdict mission_a)) - total_req (the (run_mission_verdict mission_a)) \<and>
   success (the (run_mission_verdict mission_a))"
  using verdict_margin_and_success [of mission_a] cap_a_bounds
  by (simp add: verdict_a)







text \<open>The catalog Starship against Titan with 140,000 kg.\<close>

lemma cap_b_bound: "calc_capability starship 140000 < 15.1"
proof -
  have e: "calc_capability starship 140000 = 4.8052585 * ln (257 / 17)"
    by (simp add: calc_capability_def starship_def Let_def G0_def)
  have "ln (257 / 17 :: real) < 3" by (rule ln_less_3) simp_all
  then show ?thesis unfolding e by simp
qed

lemma total_titan: "EARTH_ASCENT_COST + dv_transfer titan + dv_capture titan = 19.6"
  by (simp add: EARTH_ASCENT_COST_def titan_def)

lemma verdict_b:
  "run_mission_verdict mission_b =
     Some \<lparr>mission = mission_b\<lparr>strategy := 2,
              mission_notes := ''Alternate route: VEEGA gravity assist (~7 year flight)''\<rparr>,
           cap = calc_capability starship 140000, total_req = 19.6, bonus_dv = 4.5,
           tankers_needed = 0, final_cap = calc_capability starship 140000 + 4.5,
           final_margin = calc_capability starship 140000 + 4.5 - 19.6, success = False\<rparr>"
proof -
  let ?c = "calc_capability starship 140000"
  have t: "EARTH_ASCENT_COST + dv_transfer (body mission_b) + dv_capture (body mission_b) = 19.6"
    using total_titan by (simp add: mission_b_def)
  have c: "calc_capability (rocket mission_b) (payload_kg mission_b) = ?c"
    by (simp add: mission_b_def)
  have sel: "select_strategy mission_b ?c 19.6 =
      (2, 4.5, ''Alternate route: VEEGA gravity assist (~7 year flight)'')"
    using cap_b_bound strstr_catalog by (simp add: select_strategy_def mission_b_def)
  have fin: "final_capability mission_b 2 4.5 ''Alternate route: VEEGA gravity assist (~7 year flight)'' ?c 19.6
      = Some (0, ?c + 4.5, ''Alternate route: VEEGA gravity assist (~7 year flight)'')"
    by (rule final_capability_other) simp
  have "\<not> 0 \<le> ?c + 4.5 - 19.6" using cap_b_bound by simp
  then show ?thesis
    using verdict_eq [OF t c sel fin] by simp
qed

lemma verdict_branch:
  assumes "select_strategy m (calc_capability (rocket m) (payload_kg m))
             (EARTH_ASCENT_COST + dv_transfer (body m) + dv_capture (body m)) = (s, b, n)"
    and "s \<noteq> 3"
  shows "\<exists>v. run_mission_verdict m = Some v \<and> strategy (mission v) = s \<and> bonus_dv v = b \<and>
           mission_notes (mission v) = n \<and> tankers_needed v = 0 \<and> final_cap v = cap v + b"
  using verdict_eq [OF refl refl assms(1) final_capability_other [OF assms(2)]] by simp

text \<open>
  Claim C4.  When the base margin, capability minus requirement, is negative: a body
  whose name contains Titan gets gravity assist (code 2) with bonus 4.5 km/s, whatever
  the rocket; otherwise a rocket whose name contains Starship gets the refuel strategy
  (code 3); otherwise a margin above -1.5 gets the kick stage (code 4) with bonus
  2.0 km/s; otherwise the mission is impossible (code -1) with no bonus.  The catalog
  Starship against Titan with 140,000 kg has a negative base margin and gets gravity
  assist with bonus 4.5.
\<close>

theorem shortfall_priority:
  "(calc_capability (rocket m) (payload_kg m)
      - (EARTH_ASCENT_COST + dv_transfer (body m) + dv_capture (body m)) < 0 \<longrightarrow>
    (if strstr (body_name (body m)) ''Titan'' then
       (\<exists>v. run_mission_verdict m = Some v \<and> strategy (mission v) = 2 \<and> bonus_dv v = 4.5 \<and>
            final_cap v = cap v + 4.5)
     else if strstr (rocket_name (rocket m)) ''Starship'' then
       (\<forall>v. run_mission_verdict m = Some v \<longrightarrow> strategy (mission v) = 3 \<and> bonus_dv v = 0)
     else if calc_capability (rocket m) (payload_kg m)
               - (EARTH_ASCENT_COST + dv_transfer (body m) + dv_capture (body m)) > - 1.5 then
       (\<exists>v. run_mission_verdict m = Some v \<and> strategy (mission v) = 4 \<and> bonus_dv v = 2.0 \<and>
            final_cap v = cap v + 2.0)
     else
       (\<exists>v. run_mission_verdict m = Some v \<and> strategy (mission v) = - 1 \<and> bonus_dv v = 0 \<and>
            final_cap v = cap v \<and> \<not> success v))) \<and>
   calc_capability starship 140000 - (9.30 + 7.30 + 3.00) < 0 \<and>
   run_mission_verdict mission_b \<noteq> None \<and>
   strategy (mission (the (run_mission_verdict mission_b))) = 2 \<and>
   bonus_dv (the (run_mission_verdict mission_b)) = 4.5"
proof -
  define c where "c = calc_capability (rocket m) (payload_kg m)"
  define t where "t = EARTH_ASCENT_COST + dv_transfer (body m) + dv_capture (body m)"
  obtain s b n where sel: "select_strategy m c t = (s, b, n)"
    by (cases "select_strategy m c t") auto
  note cases = select_strategy_cases [OF sel]
  have gen: "(if strstr (body_name (body m)) ''Titan'' then
       (\<exists>v. run_mission_verdict m = Some v \<and> strategy (mission v) = 2 \<and> bonus_dv v = 4.5 \<and>
            final_cap v = cap v + 4.5)
     else if strstr (rocket_name (rocket m)) ''Starship'' then
       (\<forall>v. run_mission_verdict m = Some v \<longrightarrow> strategy (mission v) = 3 \<and> bonus_dv v = 0)
     else if c - t > - 1.5 then
       (\<exists>v. run_mission_verdict m = Some v \<and> strategy (mission v) = 4 \<and> bonus_dv v = 2.0 \<and>
            final_cap v = cap v + 2.0)
     else
       (\<exists>v. run_mission_verdict m = Some v \<and> strategy (mission v) = - 1 \<and> bonus_dv v = 0 \<and>
            final_cap v = cap v \<and> \<not> success v))" if neg: "c - t < 0"
  proof (cases "s = 3")
    case True
    then have br: "\<not> strstr (body_name (body m)) ''Titan''"
        "strstr (rocket_name (rocket m)) ''Starship''"
      using cases neg by (auto split: if_splits)
    have "strategy (mission v) = 3 \<and> bonus_dv v = 0" if v: "run_mission_verdict m = Some v" for v
    proof -
      obtain n' where "select_strategy m (cap v) (total_req v) = (strategy (mission v), bonus_dv v, n')"
        using verdict_SomeD(3) [OF v] by blast
      then have "(strategy (mission v), bonus_dv v, n') = (s, b, n)"
        using sel verdict_SomeD(1,2) [OF v] unfolding c_def t_def by simp
      then show ?thesis using cases neg br True by (simp split: if_splits)
    qed
    then show ?thesis using br by simp
  next
    case False
    obtain v where v: "run_mission_verdict m = Some v" "strategy (mission v) = s" "bonus_dv v = b"
        "final_cap v = cap v + b"
      using verdict_branch [OF sel [unfolded c_def t_def] False] by blast
    have su: "success v = (0 \<le> final_cap v - total_req v \<and> s \<noteq> - 1)"
      using verdict_SomeD(4,5) [OF v(1)] v(2) by simp
    show ?thesis
      using cases neg False v su by (auto split: if_splits)
  qed
  have g: "c - t < 0 \<longrightarrow>
    (if strstr (body_name (body m)) ''Titan'' then
       (\<exists>v. run_mission_verdict m = Some v \<and> strategy (mission v) = 2 \<and> bonus_dv v = 4.5 \<and>
            final_cap v = cap v + 4.5)
     else if strstr (rocket_name (rocket m)) ''Starship'' then
       (\<forall>v. run_mission_verdict m = Some v \<longrightarrow> strategy (mission v) = 3 \<and> bonus_dv v = 0)
     else if c - t > - 1.5 then
       (\<exists>v. run_mission_verdict m = Some v \<and> strategy (mission v) = 4 \<and> bonus_dv v = 2.0 \<and>
            final_cap v = cap v + 2.0)
     else
       (\<exists>v. run_mission_verdict m = Some v \<and> strategy (mission v) = - 1 \<and> bonus_dv v = 0 \<and>
            final_cap v = cap v \<and> \<not> success v))"
    using gen by (rule impI)
  have p1: "calc_capability starship 140000 - (9.30 + 7.30 + 3.00) < 0"
    using cap_b_bound by simp
  have p2: "run_mission_verdict mission_b \<noteq> None"
    by (simp add: verdict_b)
  have p3: "strategy (mission (the (run_mission_verdict mission_b))) = 2"
    by (simp add: verdict_b)
  have p4: "bonus_dv (the (run_mission_verdict mission_b)) = 4.5"
    by (simp add: verdict_b)
  show ?thesis
    by (intro conjI) (rule g [unfolded c_def t_def], rule p1, rule p2, rule p3, rule p4)
qed

theorem shortfall_priority_witness:
  "calc_capability starship 140000 - (EARTH_ASCENT_COST + dv_transfer titan + dv_capture titan) < 0 \<and>
   strstr (body_name titan) ''Titan'' \<and>
   run_mission_verdict mission_b \<noteq> None \<and>
   strategy (mission (the (run_mission_verdict mission_b))) = 2 \<and>
   bonus_dv (the (run_mission_verdict mission_b)) = 4.5 \<and>
   strategy (mission (the (run_mission_verdict mission_a))) = 3 \<and>
   strategy (mission (the (run_mission_verdict mission_c))) = - 1 \<and>
   bonus_dv (the (run_mission_verdict mission_c)) = 0"
proof -
  have b: "calc_capability starship 140000
      - (EARTH_ASCENT_COST + dv_transfer titan + dv_capture titan) < 0"
    using cap_b_bound total_titan by simp
  show ?thesis
    using shortfall_priority [of mission_b] shortfall_priority [of mission_a]
      shortfall_priority [of mission_c] b strstr_catalog(1)
    by (simp add: verdict_a verdict_b verdict_c)
qed

text \<open>A rocket named after the PSLV that can reach Mars directly.\<close>

lemma cap_o_bound: "15.2 \<le> calc_capability pslv_heavy 0"
proof -
  have e: "calc_capability pslv_heavy 0 = 6.864655 * ln 17"
    by (simp add: calc_capability_def pslv_heavy_def Let_def G0_def)
  show ?thesis unfolding e using ln_17_lower by simp
qed

text \<open>
  Claim C3, as amended.  When the base margin is not negative, the rocket's name
  contains PSLV, the body's name contains Mars and the payload is at most 1500 kg, the
  strategy is the Oberth perigee kick (code 1) with bonus 6.5 km/s added to the
  capability, and the note names the method.  The catalog PSLV rocket against the
  catalog Mars with 1,000 kg is not such a case: its base margin is negative, and it
  is assigned the impossible strategy (code -1) with no bonus.
\<close>

theorem oberth_kick_branch:
  "(0 \<le> calc_capability (rocket m) (payload_kg m)
          - (EARTH_ASCENT_COST + dv_transfer (body m) + dv_capture (body m)) \<and>
    strstr (rocket_name (rocket m)) ''PSLV'' \<and> strstr (body_name (body m)) ''Mars'' \<and>
    payload_kg m \<le> 1500 \<longrightarrow>
      (\<exists>v. run_mission_verdict m = Some v \<and> strategy (mission v) = 1 \<and> bonus_dv v = 6.5 \<and>
           final_cap v = cap v + 6.5 \<and>
           mission_notes (mission v) = ''Oberth/Kick-perigee method for low-mass Mars mission''))
   \<and> calc_capability pslv 1000 - (9.30 + 3.80 + 2.10) < 0
   \<and> run_mission_verdict mission_c \<noteq> None
   \<and> strategy (mission (the (run_mission_verdict mission_c))) = - 1
   \<and> bonus_dv (the (run_mission_verdict mission_c)) = 0"
proof -
  define c where "c = calc_capability (rocket m) (payload_kg m)"
  define t where "t = EARTH_ASCENT_COST + dv_transfer (body m) + dv_capture (body m)"
  have g: "0 \<le> c - t \<and>
    strstr (rocket_name (rocket m)) ''PSLV'' \<and> strstr (body_name (body m)) ''Mars'' \<and>
    payload_kg m \<le> 1500 \<longrightarrow>
      (\<exists>v. run_mission_verdict m = Some v \<and> strategy (mission v) = 1 \<and> bonus_dv v = 6.5 \<and>
           final_cap v = cap v + 6.5 \<and>
           mission_notes (mission v) = ''Oberth/Kick-perigee method for low-mass Mars mission'')"
  proof
    assume h: "0 \<le> c - t \<and>
      strstr (rocket_name (rocket m)) ''PSLV'' \<and> strstr (body_name (body m)) ''Mars'' \<and>
      payload_kg m \<le> 1500"
    then have "select_strategy m c t =
        (1, 6.5, ''Oberth/Kick-perigee method for low-mass Mars mission'')"
      by (simp add: select_strategy_def)
    from verdict_branch [OF this [unfolded c_def t_def]]
    show "\<exists>v. run_mission_verdict m = Some v \<and> strategy (mission v) = 1 \<and> bonus_dv v = 6.5 \<and>
           final_cap v = cap v + 6.5 \<and>
           mission_notes (mission v) = ''Oberth/Kick-perigee method for low-mass Mars mission''"
      by auto
  qed
  have p1: "calc_capability pslv 1000 - (9.30 + 3.80 + 2.10) < 0"
    using cap_c_bound by simp
  have p2: "run_mission_verdict mission_c \<noteq> None"
    by (simp add: verdict_c)
  have p3: "strategy (mission (the (run_mission_verdict mission_c))) = - 1"
    by (simp add: verdict_c)
  have p4: "bonus_dv (the (run_mission_verdict mission_c)) = 0"
    by (simp add: verdict_c)
  show ?thesis
    by (intro conjI) (rule g [unfolded c_def t_def], rule p1, rule p2, rule p3, rule p4)
qed

theorem oberth_kick_branch_witness:
  "0 \<le> calc_capability pslv_heavy 0 - (EARTH_ASCENT_COST + dv_transfer mars + dv_capture mars) \<and>
   strstr (rocket_name pslv_heavy) ''PSLV'' \<and> strstr (body_name mars) ''Mars'' \<and>
   (\<exists>v. run_mission_verdict mission_o = Some v \<and> strategy (mission v) = 1 \<and> bonus_dv v = 6.5)"
proof -
  have h: "0 \<le> calc_capability (rocket mission_o) (payload_kg mission_o)
          - (EARTH_ASCENT_COST + dv_transfer (body mission_o) + dv_capture (body mission_o))"
    using cap_o_bound total_mars by (simp add: mission_o_def)
  have n: "strstr (rocket_name (rocket mission_o)) ''PSLV''"
      "strstr (body_name (body mission_o)) ''Mars''" "payload_kg mission_o \<le> 1500"
    by (simp_all add: mission_o_def pslv_heavy_def mars_def)
  have "\<exists>v. run_mission_verdict mission_o = Some v \<and> strategy (mission v) = 1 \<and> bonus_dv v = 6.5 \<and>
           final_cap v = cap v + 6.5 \<and>
           mission_notes (mission v) = ''Oberth/Kick-perigee method for low-mass Mars mission''"
    using oberth_kick_branch [of mission_o, THEN conjunct1] h n by blast
  then show ?thesis
    using h n by (auto simp: mission_o_def)
qed

text \<open>
  Claim C3 as stated gives the catalog PSLV rocket against Mars with 1,000 kg the
  Oberth perigee kick and its bonus.  Its base margin is negative, and it gets neither.
\<close>

theorem pslv_mars_counterexample:
  "run_mission_verdict mission_c \<noteq> None \<and>
   \<not> 0 \<le> cap (the (run_mission_verdict mission_c)) - total_req (the (run_mission_verdict mission_c)) \<and>
   strategy (mission (the (run_mission_verdict mission_c))) \<noteq> 1 \<and>
   bonus_dv (the (run_mission_verdict mission_c)) \<noteq> 6.5"
  using cap_c_bound by (simp add: verdict_c)


subsection \<open>The launch windows\<close>


lemma time_range_Some: "time_range k = Some n \<longleftrightarrow> n = k \<and> TIME_MIN \<le> k \<and> k \<le> TIME_MAX"
  by (auto simp: time_range_def)




































end
